theory Spec2Isabelle
  imports Complex_Main
begin

section \<open>Gaussian process regression: the numeric core of the notebook\<close>

text \<open>
  The development embeds \<^verbatim>\<open>SquaredExponentialKernel\<close>, \<^verbatim>\<open>cov_matrix\<close> and the class
  \<^verbatim>\<open>GPR\<close> of \<^verbatim>\<open>utils/gpr_visualization.ipynb\<close>.

  Conventions of the embedding.
  \<^item> A Python/numpy float is a \<^typ>\<open>real\<close>: arithmetic is exact, there is no rounding,
    no \<^verbatim>\<open>inf\<close> and no \<^verbatim>\<open>nan\<close>. The constant \<^verbatim>\<open>3e-7\<close> is \<open>3 / 10 ^ 7\<close>.
  \<^item> A numpy array of rank 0, 1 or 2 is an \<open>ndarray\<close>; the shape rules of numpy
    (broadcasting, \<^verbatim>\<open>np.dot\<close>, \<^verbatim>\<open>np.diag\<close>, ...) are written out, and a shape error
    that numpy raises is the value \<open>Inl ValueError\<close>.
  \<^item> A point is a rank-1 array, a \<^typ>\<open>real list\<close>. (A scalar point, as in the
    notebook's one-dimensional data, behaves in the kernel like a vector of length 1.)
  \<^item> \<^verbatim>\<open>np.linalg.inv\<close> is LAPACK code outside the repository: the constructor takes
    it as the parameter \<open>linalg_inv\<close>.
\<close>

subsection \<open>Errors and arrays\<close>

datatype error = ValueError | LinAlgError | IndexError

text \<open>
  \<open>Arr2 c rows\<close> is an array of shape \<open>(length rows, c)\<close>; the column count is kept
  because \<open>rows\<close> may be empty. It is well formed when every row has length \<open>c\<close>.
\<close>

datatype ndarray = Arr0 real | Arr1 "real list" | Arr2 nat "real list list"

fun wf_array :: "ndarray \<Rightarrow> bool" where
  "wf_array (Arr2 c rows) = list_all (\<lambda>r. length r = c) rows"
| "wf_array _ = True"

fun np_shape :: "ndarray \<Rightarrow> nat list" where
  "np_shape (Arr0 x) = []"
| "np_shape (Arr1 xs) = [length xs]"
| "np_shape (Arr2 c rows) = [length rows, c]"

text \<open>\<^verbatim>\<open>np.shape(a)[0]\<close>: the empty shape tuple of a rank-0 array has no first entry.\<close>

fun np_shape0 :: "ndarray \<Rightarrow> error + nat" where
  "np_shape0 (Arr0 x) = Inl IndexError"
| "np_shape0 (Arr1 xs) = Inr (length xs)"
| "np_shape0 (Arr2 c rows) = Inr (length rows)"

subsubsection \<open>Broadcasting\<close>

text \<open>Two axis lengths are compatible when they are equal or one of them is 1.\<close>

definition compat :: "nat \<Rightarrow> nat \<Rightarrow> bool" where
  "compat p q = (p = q \<or> p = 1 \<or> q = 1)"

definition bdim :: "nat \<Rightarrow> nat \<Rightarrow> nat" where
  "bdim p q = (if p = q then p else if p = 1 then q else p)"

text \<open>Combining two lists along one axis whose lengths are compatible.\<close>

definition bzip :: "('a \<Rightarrow> 'b \<Rightarrow> 'c) \<Rightarrow> 'a list \<Rightarrow> 'b list \<Rightarrow> 'c list" where
  "bzip f xs ys =
     (if length xs = length ys then map2 f xs ys
      else if length xs = 1 then map (f (hd xs)) ys
      else map (\<lambda>x. f x (hd ys)) xs)"

definition broadcast1 ::
  "(real \<Rightarrow> real \<Rightarrow> real) \<Rightarrow> real list \<Rightarrow> real list \<Rightarrow> error + real list" where
  "broadcast1 f xs ys =
     (if compat (length xs) (length ys) then Inr (bzip f xs ys) else Inl ValueError)"

text \<open>An elementwise binary operation (\<^verbatim>\<open>+\<close>, \<^verbatim>\<open>-\<close>) on two arrays.\<close>

fun np_binop :: "(real \<Rightarrow> real \<Rightarrow> real) \<Rightarrow> ndarray \<Rightarrow> ndarray \<Rightarrow> error + ndarray" where
  "np_binop f (Arr0 x) (Arr0 y) = Inr (Arr0 (f x y))"
| "np_binop f (Arr0 x) (Arr1 ys) = Inr (Arr1 (map (f x) ys))"
| "np_binop f (Arr0 x) (Arr2 c rows) = Inr (Arr2 c (map (map (f x)) rows))"
| "np_binop f (Arr1 xs) (Arr0 y) = Inr (Arr1 (map (\<lambda>x. f x y) xs))"
| "np_binop f (Arr2 c rows) (Arr0 y) = Inr (Arr2 c (map (map (\<lambda>x. f x y)) rows))"
| "np_binop f (Arr1 xs) (Arr1 ys) =
     (case broadcast1 f xs ys of Inl e \<Rightarrow> Inl e | Inr zs \<Rightarrow> Inr (Arr1 zs))"
| "np_binop f (Arr1 xs) (Arr2 c rows) =
     (if compat (length xs) c
      then Inr (Arr2 (bdim (length xs) c) (map (\<lambda>r. bzip f xs r) rows))
      else Inl ValueError)"
| "np_binop f (Arr2 c rows) (Arr1 ys) =
     (if compat c (length ys)
      then Inr (Arr2 (bdim c (length ys)) (map (\<lambda>r. bzip f r ys) rows))
      else Inl ValueError)"
| "np_binop f (Arr2 c1 rows1) (Arr2 c2 rows2) =
     (if compat (length rows1) (length rows2) \<and> compat c1 c2
      then Inr (Arr2 (bdim c1 c2) (bzip (bzip f) rows1 rows2))
      else Inl ValueError)"

definition np_add :: "ndarray \<Rightarrow> ndarray \<Rightarrow> error + ndarray" where
  "np_add = np_binop (+)"

definition np_sub :: "ndarray \<Rightarrow> ndarray \<Rightarrow> error + ndarray" where
  "np_sub = np_binop (-)"

text \<open>A Python float times an array.\<close>

fun np_scale :: "real \<Rightarrow> ndarray \<Rightarrow> ndarray" where
  "np_scale s (Arr0 x) = Arr0 (s * x)"
| "np_scale s (Arr1 xs) = Arr1 (map (\<lambda>x. s * x) xs)"
| "np_scale s (Arr2 c rows) = Arr2 c (map (map (\<lambda>x. s * x)) rows)"

subsubsection \<open>Constructors, transposition, products\<close>

definition np_identity :: "nat \<Rightarrow> ndarray" where
  "np_identity n = Arr2 n (map (\<lambda>i. map (\<lambda>j. if i = j then 1 else 0) [0..<n]) [0..<n])"

definition np_ones :: "nat \<Rightarrow> ndarray" where
  "np_ones n = Arr1 (replicate n 1)"

text \<open>
  \<^verbatim>\<open>np.array\<close> of a list of \<open>rows\<close>, each a list of \<open>c\<close> floats: the empty list gives
  the rank-1 array of shape \<open>(0,)\<close>.
\<close>

definition np_array :: "nat \<Rightarrow> real list list \<Rightarrow> ndarray" where
  "np_array c rows = (if rows = [] then Arr1 [] else Arr2 c rows)"

definition column :: "nat \<Rightarrow> real list list \<Rightarrow> real list" where
  "column j rows = map (\<lambda>r. r ! j) rows"

definition columns :: "nat \<Rightarrow> real list list \<Rightarrow> real list list" where
  "columns c rows = map (\<lambda>j. column j rows) [0..<c]"

fun np_T :: "ndarray \<Rightarrow> ndarray" where
  "np_T (Arr2 c rows) = Arr2 (length rows) (columns c rows)"
| "np_T a = a"

fun np_flatten :: "ndarray \<Rightarrow> ndarray" where
  "np_flatten (Arr0 x) = Arr1 [x]"
| "np_flatten (Arr1 xs) = Arr1 xs"
| "np_flatten (Arr2 c rows) = Arr1 (concat rows)"

definition inner :: "real list \<Rightarrow> real list \<Rightarrow> real" where
  "inner xs ys = sum_list (map2 (*) xs ys)"

fun np_dot :: "ndarray \<Rightarrow> ndarray \<Rightarrow> error + ndarray" where
  "np_dot (Arr0 x) b = Inr (np_scale x b)"
| "np_dot (Arr1 xs) (Arr0 y) = Inr (Arr1 (map (\<lambda>x. x * y) xs))"
| "np_dot (Arr2 c rows) (Arr0 y) = Inr (Arr2 c (map (map (\<lambda>x. x * y)) rows))"
| "np_dot (Arr1 xs) (Arr1 ys) =
     (if length xs = length ys then Inr (Arr0 (inner xs ys)) else Inl ValueError)"
| "np_dot (Arr2 c rows) (Arr1 ys) =
     (if c = length ys then Inr (Arr1 (map (\<lambda>r. inner r ys) rows)) else Inl ValueError)"
| "np_dot (Arr1 xs) (Arr2 c rows) =
     (if length xs = length rows then Inr (Arr1 (map (inner xs) (columns c rows)))
      else Inl ValueError)"
| "np_dot (Arr2 c1 rows1) (Arr2 c2 rows2) =
     (if c1 = length rows2
      then Inr (Arr2 c2 (map (\<lambda>r. map (inner r) (columns c2 rows2)) rows1))
      else Inl ValueError)"

text \<open>
  \<^verbatim>\<open>np.diag\<close>: the diagonal of a rank-2 array, the diagonal matrix of a rank-1 array,
  an error on a rank-0 array.
\<close>

fun np_diag :: "ndarray \<Rightarrow> error + ndarray" where
  "np_diag (Arr0 x) = Inl ValueError"
| "np_diag (Arr1 xs) =
     Inr (Arr2 (length xs)
       (map (\<lambda>i. map (\<lambda>j. if i = j then xs ! i else 0) [0..<length xs]) [0..<length xs]))"
| "np_diag (Arr2 c rows) = Inr (Arr1 (map (\<lambda>i. rows ! i ! i) [0..<min (length rows) c]))"

text \<open>\<^verbatim>\<open>np.linalg.norm\<close> of a rank-1 array: the Euclidean norm.\<close>

definition linalg_norm :: "real list \<Rightarrow> real" where
  "linalg_norm xs = sqrt (inner xs xs)"

subsection \<open>The squared exponential kernel\<close>

record SquaredExponentialKernel =
  sigma_f :: real
  length_k :: real

text \<open>\<^verbatim>\<open>SquaredExponentialKernel(sigma_f=1, length=1)\<close>, the default arguments.\<close>

definition SquaredExponentialKernel_init :: "real \<Rightarrow> real \<Rightarrow> SquaredExponentialKernel" where
  "SquaredExponentialKernel_init s l = \<lparr>sigma_f = s, length_k = l\<rparr>"

text \<open>
  \<^verbatim>\<open>__call__\<close>. The difference of the two arguments broadcasts and fails when the
  lengths are incompatible. With \<open>length_k = 0\<close> the source divides a float by zero
  and yields \<^verbatim>\<open>nan\<close> or \<^verbatim>\<open>-inf\<close>, which a real number cannot model: the theorems
  about this kernel assume \<open>length_k \<noteq> 0\<close>, and the default kernel has \<open>length_k = 1\<close>.
\<close>

definition SquaredExponentialKernel_call ::
  "SquaredExponentialKernel \<Rightarrow> real list \<Rightarrow> real list \<Rightarrow> error + real" where
  "SquaredExponentialKernel_call K argument_1 argument_2 =
     (case broadcast1 (-) argument_1 argument_2 of
        Inl e \<Rightarrow> Inl e
      | Inr d \<Rightarrow> Inr (sigma_f K * exp (- ((linalg_norm d)\<^sup>2) / (2 * (length_k K)\<^sup>2))))"

subsection \<open>Assembling covariance matrices\<close>

text \<open>
  A covariance function is any callable of two points; a call may raise, so it returns
  \<open>error + real\<close>. \<open>mapM\<close> runs a comprehension from left to right and stops at the
  first error.
\<close>

type_synonym cov_fun = "real list \<Rightarrow> real list \<Rightarrow> error + real"

fun mapM :: "('a \<Rightarrow> error + 'b) \<Rightarrow> 'a list \<Rightarrow> error + 'b list" where
  "mapM f [] = Inr []"
| "mapM f (x # xs) =
     (case f x of
        Inl e \<Rightarrow> Inl e
      | Inr y \<Rightarrow> (case mapM f xs of Inl e \<Rightarrow> Inl e | Inr ys \<Rightarrow> Inr (y # ys)))"

text \<open>
  \<^verbatim>\<open>np.array([[cov_function(a, b) for a in x1] for b in x2])\<close>: the outer
  comprehension runs over \<open>x2\<close>, so there is one row for each point of \<open>x2\<close>.
\<close>

definition cov_matrix :: "real list list \<Rightarrow> real list list \<Rightarrow> cov_fun \<Rightarrow> error + ndarray" where
  "cov_matrix x1 x2 cov_function =
     (case mapM (\<lambda>b. mapM (\<lambda>a. cov_function a b) x1) x2 of
        Inl e \<Rightarrow> Inl e
      | Inr rows \<Rightarrow> Inr (np_array (length x1) rows))"

subsection \<open>The regressor\<close>

record posterior =
  mean :: ndarray
  covariance_matrix :: ndarray
  variance :: ndarray

record GPR =
  noise :: real
  data_x :: "real list list"
  data_y :: "real list"
  covariance_function :: cov_fun
  inverse_of_covariance_matrix_of_input :: ndarray
  memory :: "posterior option"

text \<open>
  \<^verbatim>\<open>GPR.__init__\<close>. \<open>data_x\<close> is the sequence of training points, \<open>data_y\<close> a
  rank-1 array, \<open>linalg_inv\<close> stands for \<^verbatim>\<open>np.linalg.inv\<close>.
\<close>

definition GPR_init ::
  "(ndarray \<Rightarrow> error + ndarray) \<Rightarrow> real list list \<Rightarrow> real list \<Rightarrow> cov_fun \<Rightarrow> real
     \<Rightarrow> error + GPR" where
  "GPR_init linalg_inv data_x' data_y' covariance_function' white_noise_sigma =
     (case cov_matrix data_x' data_x' covariance_function' of
        Inl e \<Rightarrow> Inl e
      | Inr k \<Rightarrow>
     (case np_add k (np_scale (3 / 10 ^ 7 + white_noise_sigma) (np_identity (length data_x'))) of
        Inl e \<Rightarrow> Inl e
      | Inr s \<Rightarrow>
     (case linalg_inv s of
        Inl e \<Rightarrow> Inl e
      | Inr inverse_k \<Rightarrow>
          Inr \<lparr>noise = white_noise_sigma, data_x = data_x', data_y = data_y',
               covariance_function = covariance_function',
               inverse_of_covariance_matrix_of_input = inverse_k, memory = None\<rparr>)))"

text \<open>
  \<^verbatim>\<open>GPR.predict\<close>: the value returned is \<^verbatim>\<open>mean_at_values\<close>; the dictionary with
  mean, covariance matrix and variance is stored in \<^verbatim>\<open>_memory\<close>, so the model returns
  the mean together with the updated regressor.
\<close>

definition predict :: "GPR \<Rightarrow> real list list \<Rightarrow> error + (ndarray \<times> GPR)" where
  "predict self at_values =
     (case cov_matrix (data_x self) at_values (covariance_function self) of
        Inl e \<Rightarrow> Inl e
      | Inr k_lower_left \<Rightarrow>
     (case cov_matrix at_values at_values (covariance_function self) of
        Inl e \<Rightarrow> Inl e
      | Inr k_lower_right \<Rightarrow>
     (case np_dot (Arr1 (data_y self)) (np_T (inverse_of_covariance_matrix_of_input self)) of
        Inl e \<Rightarrow> Inl e
      | Inr v \<Rightarrow>
     (case np_dot k_lower_left (np_T v) of
        Inl e \<Rightarrow> Inl e
      | Inr mu \<Rightarrow>
     (case np_dot (inverse_of_covariance_matrix_of_input self) (np_T k_lower_left) of
        Inl e \<Rightarrow> Inl e
      | Inr w \<Rightarrow>
     (case np_dot k_lower_left w of
        Inl e \<Rightarrow> Inl e
      | Inr p \<Rightarrow>
     (case np_sub k_lower_right p of
        Inl e \<Rightarrow> Inl e
      | Inr cov0 \<Rightarrow>
     (case np_shape0 cov0 of
        Inl e \<Rightarrow> Inl e
      | Inr r \<Rightarrow>
     (case np_add cov0 (np_scale (3 / 10 ^ 7) (np_ones r)) of
        Inl e \<Rightarrow> Inl e
      | Inr cov_at_values \<Rightarrow>
     (case np_diag cov_at_values of
        Inl e \<Rightarrow> Inl e
      | Inr var_at_values \<Rightarrow>
          Inr (np_flatten mu,
               self\<lparr>memory := Some \<lparr>mean = np_flatten mu,
                                     covariance_matrix = cov_at_values,
                                     variance = var_at_values\<rparr>\<rparr>)))))))))))"

subsection \<open>An exact inverse\<close>

text \<open>
  To run the regressor on concrete data the parameter \<open>linalg_inv\<close> needs a value.
  \<open>exact_inv\<close> is the inverse over the reals by cofactors: it fails with
  \<open>LinAlgError\<close>, as \<^verbatim>\<open>np.linalg.inv\<close> does, on an array that is not a square rank-2
  array or whose determinant is zero, and it returns the empty \<open>0 \<times> 0\<close> array for the
  empty \<open>0 \<times> 0\<close> array.
\<close>

definition del_nth :: "nat \<Rightarrow> 'a list \<Rightarrow> 'a list" where
  "del_nth j xs = take j xs @ drop (Suc j) xs"

fun det :: "real list list \<Rightarrow> real" where
  "det [] = 1"
| "det (r # rs) = (\<Sum>j\<leftarrow>[0..<length r]. (- 1) ^ j * r ! j * det (map (del_nth j) rs))"

definition cofactor :: "real list list \<Rightarrow> nat \<Rightarrow> nat \<Rightarrow> real" where
  "cofactor rows i j = (- 1) ^ (i + j) * det (map (del_nth j) (del_nth i rows))"

definition exact_inv :: "ndarray \<Rightarrow> error + ndarray" where
  "exact_inv a =
     (case a of
        Arr2 c rows \<Rightarrow>
          if length rows = c \<and> det rows \<noteq> 0
          then Inr (Arr2 c (map (\<lambda>i. map (\<lambda>j. cofactor rows j i / det rows) [0..<c]) [0..<c]))
          else Inl LinAlgError
      | _ \<Rightarrow> Inl LinAlgError)"

subsection \<open>Notions used in the statements\<close>

text \<open>The nested list of \<open>r\<close> rows and \<open>c\<close> columns with entry \<open>f i j\<close> in row \<open>i\<close>, column \<open>j\<close>.\<close>

definition tab2 :: "nat \<Rightarrow> nat \<Rightarrow> (nat \<Rightarrow> nat \<Rightarrow> real) \<Rightarrow> real list list" where
  "tab2 r c f = map (\<lambda>i. map (\<lambda>j. f i j) [0..<c]) [0..<r]"

text \<open>
  What is assumed of \<^verbatim>\<open>np.linalg.inv\<close>: an inverse it returns is a well-formed array of
  the shape of its argument.
\<close>

definition shape_preserving :: "(ndarray \<Rightarrow> error + ndarray) \<Rightarrow> bool" where
  "shape_preserving linalg_inv =
     (\<forall>a b. linalg_inv a = Inr b \<longrightarrow> wf_array b \<and> np_shape b = np_shape a)"

text \<open>The default argument \<^verbatim>\<open>covariance_function=SquaredExponentialKernel()\<close>.\<close>

definition default_covariance_function :: cov_fun where
  "default_covariance_function =
     SquaredExponentialKernel_call (SquaredExponentialKernel_init 1 1)"

subsection \<open>Example regressors\<close>

text \<open>
  The regressors that \<^verbatim>\<open>GPR\<close> builds, with the exact inverse, from the training
  sets \<open>{(0, 5)}\<close> (noise 0.01), \<open>{(0, 5), (0, 6)}\<close> (noise 0.01), \<open>{(0, 5)}\<close> (noise -0.5)
  and \<open>{((0, 0), 5)}\<close> (noise 0.01), all with the default kernel.
\<close>

abbreviation (input) regressor_one :: GPR where
  "regressor_one \<equiv>
     \<lparr>noise = 1 / 100, data_x = [[0]], data_y = [5],
      covariance_function = default_covariance_function,
      inverse_of_covariance_matrix_of_input = Arr2 1 [[10000000 / 10100003]],
      memory = None\<rparr>"

abbreviation (input) regressor_two :: GPR where
  "regressor_two \<equiv>
     \<lparr>noise = 1 / 100, data_x = [[0], [0]], data_y = [5, 6],
      covariance_function = default_covariance_function,
      inverse_of_covariance_matrix_of_input =
        Arr2 2 [[101000030000000 / 2010060600009, - (100000000000000 / 2010060600009)],
                [- (100000000000000 / 2010060600009), 101000030000000 / 2010060600009]],
      memory = None\<rparr>"

abbreviation (input) regressor_neg :: GPR where
  "regressor_neg \<equiv>
     \<lparr>noise = - (1 / 2), data_x = [[0]], data_y = [5],
      covariance_function = default_covariance_function,
      inverse_of_covariance_matrix_of_input = Arr2 1 [[10000000 / 5000003]],
      memory = None\<rparr>"

abbreviation (input) regressor_plane :: GPR where
  "regressor_plane \<equiv>
     \<lparr>noise = 1 / 100, data_x = [[0, 0]], data_y = [5],
      covariance_function = default_covariance_function,
      inverse_of_covariance_matrix_of_input = Arr2 1 [[10000000 / 10100003]],
      memory = None\<rparr>"

section \<open>Auxiliary facts\<close>

subsection \<open>Inner products and tabulated matrices\<close>

lemma inner_sum:
  "length xs = length ys \<Longrightarrow> inner xs ys = (\<Sum>i<length xs. xs ! i * ys ! i)"
proof -
  assume len: "length xs = length ys"
  have "inner xs ys = (\<Sum>i = 0..<length (map2 (*) xs ys). map2 (*) xs ys ! i)"
    unfolding inner_def by (rule sum_list_sum_nth)
  also have "\<dots> = (\<Sum>i = 0..<length xs. xs ! i * ys ! i)"
    using len by (intro sum.cong) auto
  finally show ?thesis by (simp add: atLeast0LessThan)
qed

lemma inner_self_nonneg: "0 \<le> inner xs xs"
  unfolding inner_def by (induction xs) auto

lemma linalg_norm_sq: "(linalg_norm xs)\<^sup>2 = inner xs xs"
  unfolding linalg_norm_def using inner_self_nonneg by simp

lemma inner_upt: "inner (map f [0..<n]) (map g [0..<n]) = (\<Sum>i<n. f i * g i)"
proof -
  have "inner (map f [0..<n]) (map g [0..<n])
        = (\<Sum>i<length (map f [0..<n]). map f [0..<n] ! i * map g [0..<n] ! i)"
    by (rule inner_sum) simp
  then show ?thesis by simp
qed

lemma length_tab2 [simp]: "length (tab2 r c f) = r"
  by (simp add: tab2_def)

lemma nth_tab2 [simp]: "i < r \<Longrightarrow> tab2 r c f ! i = map (f i) [0..<c]"
  by (simp add: tab2_def)

lemma tab2_cong:
  "(\<And>i j. i < r \<Longrightarrow> j < c \<Longrightarrow> f i j = g i j) \<Longrightarrow> tab2 r c f = tab2 r c g"
  by (simp add: tab2_def)

lemma tab2_of_rows:
  assumes "length rows = r" and "\<forall>row\<in>set rows. length row = c"
  shows "rows = tab2 r c (\<lambda>i j. rows ! i ! j)"
proof (rule nth_equalityI)
  show "length rows = length (tab2 r c (\<lambda>i j. rows ! i ! j))"
    using assms by simp
next
  fix i assume i: "i < length rows"
  then have "length (rows ! i) = c"
    using assms by simp
  then have "rows ! i = map (\<lambda>j. rows ! i ! j) [0..<c]"
    by (metis map_nth)
  then show "rows ! i = tab2 r c (\<lambda>i j. rows ! i ! j) ! i"
    using i assms by simp
qed

lemma map_as_upt: "map f xs = map (\<lambda>i. f (xs ! i)) [0..<length xs]"
  by (rule nth_equalityI) auto

lemma map2_upt: "map2 h (map f [0..<n]) (map g [0..<n]) = map (\<lambda>i. h (f i) (g i)) [0..<n]"
  by (rule nth_equalityI) auto

lemma bzip_same: "length xs = length ys \<Longrightarrow> bzip f xs ys = map2 f xs ys"
  by (simp add: bzip_def)

lemma columns_tab2: "columns c (tab2 r c f) = tab2 c r (\<lambda>j i. f i j)"
  by (simp add: columns_def column_def tab2_def)

subsection \<open>The array operations on tabulated arrays\<close>

lemma np_T_tab2: "np_T (Arr2 c (tab2 r c f)) = Arr2 r (tab2 c r (\<lambda>j i. f i j))"
  by (simp add: columns_tab2)

lemma dot_mat_mat:
  "np_dot (Arr2 c (tab2 r c f)) (Arr2 d (tab2 c d g))
     = Inr (Arr2 d (tab2 r d (\<lambda>i j. \<Sum>k<c. f i k * g k j)))"
  by (simp add: columns_tab2) (simp add: tab2_def inner_upt)

lemma dot_mat_vec:
  "np_dot (Arr2 c (tab2 r c f)) (Arr1 (map g [0..<c]))
     = Inr (Arr1 (map (\<lambda>i. \<Sum>k<c. f i k * g k) [0..<r]))"
  by (simp add: tab2_def inner_upt)

lemma dot_vec_mat:
  "np_dot (Arr1 (map g [0..<r])) (Arr2 c (tab2 r c f))
     = Inr (Arr1 (map (\<lambda>j. \<Sum>i<r. g i * f i j) [0..<c]))"
  by (simp add: columns_tab2) (simp add: tab2_def inner_upt)

lemma binop_mat_mat:
  "np_binop h (Arr2 c (tab2 r c f)) (Arr2 c (tab2 r c g))
     = Inr (Arr2 c (tab2 r c (\<lambda>i j. h (f i j) (g i j))))"
proof -
  have "bzip (bzip h) (tab2 r c f) (tab2 r c g) = tab2 r c (\<lambda>i j. h (f i j) (g i j))"
    by (rule nth_equalityI) (auto simp: bzip_same map2_upt)
  then show ?thesis by (simp add: compat_def bdim_def)
qed

lemma binop_mat_vec:
  "np_binop h (Arr2 c (tab2 r c f)) (Arr1 (map g [0..<c]))
     = Inr (Arr2 c (tab2 r c (\<lambda>i j. h (f i j) (g j))))"
proof -
  have "map (\<lambda>row. bzip h row (map g [0..<c])) (tab2 r c f) = tab2 r c (\<lambda>i j. h (f i j) (g j))"
    by (rule nth_equalityI) (auto simp: bzip_same map2_upt)
  then show ?thesis by (simp add: compat_def bdim_def)
qed

lemma diag_tab2: "np_diag (Arr2 c (tab2 c c f)) = Inr (Arr1 (map (\<lambda>i. f i i) [0..<c]))"
  by simp

lemma scale_identity:
  "np_scale s (np_identity n) = Arr2 n (tab2 n n (\<lambda>i j. if i = j then s else 0))"
  by (simp add: np_identity_def tab2_def)

lemma ones_upt: "np_scale s (np_ones n) = Arr1 (map (\<lambda>j. s) [0..<n])"
  by (simp add: np_ones_def map_replicate_const)

lemma np_array_tab2: "0 < r \<Longrightarrow> np_array c (tab2 r c f) = Arr2 c (tab2 r c f)"
  by (auto simp: np_array_def tab2_def)

lemma rank2_shape:
  assumes "wf_array b" and "np_shape b = [r, c]"
  shows "\<exists>rows. b = Arr2 c rows \<and> length rows = r \<and> (\<forall>row\<in>set rows. length row = c)"
  using assms by (cases b) (auto simp: list_all_iff)

lemma exact_inv_shape: "shape_preserving exact_inv"
  unfolding shape_preserving_def exact_inv_def
  by (auto split: ndarray.splits if_splits simp: list_all_iff)

text \<open>On the sizes used in the examples, \<open>exact_inv\<close> returns a two-sided inverse.\<close>

lemma exact_inv_1x1:
  assumes "exact_inv (Arr2 1 [[a]]) = Inr m"
  shows "np_dot (Arr2 1 [[a]]) m = Inr (np_identity 1)
       \<and> np_dot m (Arr2 1 [[a]]) = Inr (np_identity 1)"
  using assms
  by (auto simp: exact_inv_def cofactor_def del_nth_def np_identity_def columns_def column_def
      inner_def upt_conv_Cons split: if_splits)

lemma exact_inv_2x2:
  assumes "exact_inv (Arr2 2 [[a, b], [c, d]]) = Inr m"
  shows "np_dot (Arr2 2 [[a, b], [c, d]]) m = Inr (np_identity 2)
       \<and> np_dot m (Arr2 2 [[a, b], [c, d]]) = Inr (np_identity 2)"
proof -
  define D where "D = a * d - b * c"
  from assms have D: "D \<noteq> 0"
    by (auto simp: D_def exact_inv_def del_nth_def upt_conv_Cons split: if_splits)
  from assms D have m: "m = Arr2 2 [[d / D, - b / D], [- c / D, a / D]]"
    by (auto simp: D_def exact_inv_def cofactor_def del_nth_def upt_conv_Cons numeral_2_eq_2
        split: if_splits)
  have one: "(a * d - b * c) / D = 1"
    using D by (simp add: D_def)
  have e: "a * (d / D) + b * (- c / D) = 1" "a * (- b / D) + b * (a / D) = 0"
    "c * (d / D) + d * (- c / D) = 0" "c * (- b / D) + d * (a / D) = 1"
    "d / D * a + - b / D * c = 1" "d / D * b + - b / D * d = 0"
    "- c / D * a + a / D * c = 0" "- c / D * b + a / D * d = 1"
    using one by (simp_all add: diff_divide_distrib mult.commute)
  show ?thesis
    unfolding m using e
    by (simp add: np_identity_def columns_def column_def inner_def upt_conv_Cons numeral_2_eq_2)
qed

subsection \<open>Comprehensions\<close>

lemma mapM_Inr: "(\<forall>x\<in>set xs. f x = Inr (g x)) \<Longrightarrow> mapM f xs = Inr (map g xs)"
  by (induction xs) auto

lemma mapM_Inr_D: "mapM f xs = Inr ys \<Longrightarrow> x \<in> set xs \<Longrightarrow> \<exists>v. f x = Inr v"
  by (induction xs arbitrary: ys) (auto split: sum.splits)

text \<open>When every error of \<open>f\<close> on \<open>xs\<close> is \<open>E\<close>, so is the error of the comprehension.\<close>

lemma mapM_Inl:
  assumes "\<And>z e. z \<in> set xs \<Longrightarrow> f z = Inl e \<Longrightarrow> e = E" and "x \<in> set xs" and "f x = Inl E"
  shows "mapM f xs = Inl E"
  using assms
proof (induction xs)
  case Nil
  then show ?case by simp
next
  case (Cons z zs)
  show ?case
  proof (cases "f z")
    case (Inl e)
    have "e = E"
      by (rule Cons.prems(1) [of z]) (simp_all add: Inl)
    with Inl show ?thesis by simp
  next
    case (Inr v)
    have "x \<noteq> z"
      using Inr Cons.prems(3) by auto
    with Cons.prems(2) have "x \<in> set zs" by simp
    moreover have "\<And>z e. z \<in> set zs \<Longrightarrow> f z = Inl e \<Longrightarrow> e = E"
      by (rule Cons.prems(1)) simp_all
    ultimately have "mapM f zs = Inl E"
      using Cons.prems(3) by (rule_tac Cons.IH)
    with Inr show ?thesis by simp
  qed
qed

lemma mapM_only_error:
  assumes "\<And>z e. z \<in> set xs \<Longrightarrow> f z = Inl e \<Longrightarrow> e = E" and "mapM f xs = Inl e"
  shows "e = E"
  using assms
proof (induction xs)
  case Nil
  then show ?case by simp
next
  case (Cons z zs)
  show ?case
  proof (cases "f z")
    case (Inl e')
    have "e' = E"
      by (rule Cons.prems(1) [of z]) (simp_all add: Inl)
    moreover have "e = e'"
      using Cons.prems(2) Inl by simp
    ultimately show ?thesis by simp
  next
    case (Inr v)
    then have "mapM f zs = Inl e"
      using Cons.prems(2) by (simp split: sum.splits)
    moreover have "\<And>z e. z \<in> set zs \<Longrightarrow> f z = Inl e \<Longrightarrow> e = E"
      by (rule Cons.prems(1)) simp_all
    ultimately show ?thesis
      by (rule_tac Cons.IH)
  qed
qed

subsection \<open>The kernel\<close>

lemma broadcast1_same_length:
  "length a = length b \<Longrightarrow> broadcast1 f a b = Inr (map2 f a b)"
  by (simp add: broadcast1_def compat_def bzip_def)

lemma sq_dist_sum:
  assumes "length a = length b"
  shows "inner (map2 (-) a b) (map2 (-) a b) = (\<Sum>i<length a. (a ! i - b ! i)\<^sup>2)"
proof -
  have "inner (map2 (-) a b) (map2 (-) a b)
        = (\<Sum>i<length (map2 (-) a b). map2 (-) a b ! i * map2 (-) a b ! i)"
    by (rule inner_sum) simp
  also have "\<dots> = (\<Sum>i<length a. (a ! i - b ! i)\<^sup>2)"
    using assms by (intro sum.cong) (auto simp: power2_eq_square)
  finally show ?thesis .
qed

lemma kernel_self: "SquaredExponentialKernel_call K a a = Inr (sigma_f K)"
proof -
  have "inner (map2 (-) a a) (map2 (-) a a) = 0"
    by (simp add: sq_dist_sum)
  then show ?thesis
    by (simp add: SquaredExponentialKernel_call_def broadcast1_same_length linalg_norm_sq)
qed

lemma kernel_value:
  assumes "length a = length b"
  shows "SquaredExponentialKernel_call K a b
           = Inr (sigma_f K * exp (- (\<Sum>i<length a. (a ! i - b ! i)\<^sup>2) / (2 * (length_k K)\<^sup>2)))"
  using assms
  by (simp add: SquaredExponentialKernel_call_def broadcast1_same_length
      linalg_norm_sq sq_dist_sum)

lemma default_kernel_self: "default_covariance_function a a = Inr 1"
  by (simp add: default_covariance_function_def kernel_self SquaredExponentialKernel_init_def)

lemma default_kernel_value:
  "length a = length b \<Longrightarrow>
   default_covariance_function a b = Inr (exp (- (\<Sum>i<length a. (a ! i - b ! i)\<^sup>2) / 2))"
  by (simp add: default_covariance_function_def kernel_value SquaredExponentialKernel_init_def)

lemma kernel_fails_iff:
  "SquaredExponentialKernel_call K a b = Inl e
     \<longleftrightarrow> e = ValueError \<and> \<not> compat (length a) (length b)"
  by (auto simp: SquaredExponentialKernel_call_def broadcast1_def)

subsection \<open>Covariance matrices\<close>

lemma cov_matrix_rows:
  assumes "\<forall>a\<in>set x1. \<forall>b\<in>set x2. k a b = Inr (kf a b)"
  shows "cov_matrix x1 x2 k
           = Inr (np_array (length x1)
                   (tab2 (length x2) (length x1) (\<lambda>j i. kf (x1 ! i) (x2 ! j))))"
proof -
  have row_ok: "\<forall>b\<in>set x2. mapM (\<lambda>a. k a b) x1 = Inr (map (\<lambda>a. kf a b) x1)"
    using assms by (auto intro!: mapM_Inr)
  have "mapM (\<lambda>b. mapM (\<lambda>a. k a b) x1) x2 = Inr (map (\<lambda>b. map (\<lambda>a. kf a b) x1) x2)"
    using row_ok by (rule mapM_Inr)
  moreover have "map (\<lambda>b. map (\<lambda>a. kf a b) x1) x2
                 = tab2 (length x2) (length x1) (\<lambda>j i. kf (x1 ! i) (x2 ! j))"
    by (rule nth_equalityI) (auto simp: map_as_upt [of _ x1])
  ultimately show ?thesis by (simp add: cov_matrix_def)
qed

lemma cov_matrix_Inr_D:
  assumes "cov_matrix x1 x2 k = Inr m" and "a \<in> set x1" and "b \<in> set x2"
  shows "\<exists>v. k a b = Inr v"
proof -
  from assms(1) obtain rows where "mapM (\<lambda>b. mapM (\<lambda>a. k a b) x1) x2 = Inr rows"
    by (auto simp: cov_matrix_def split: sum.splits)
  with assms(3) obtain r where "mapM (\<lambda>a. k a b) x1 = Inr r"
    using mapM_Inr_D by fastforce
  with assms(2) show ?thesis
    using mapM_Inr_D by fastforce
qed

lemma cov_matrix_kernel_fails:
  assumes "a \<in> set x1" and "b \<in> set x2" and "\<not> compat (length a) (length b)"
  shows "cov_matrix x1 x2 (SquaredExponentialKernel_call K) = Inl ValueError"
proof -
  let ?k = "SquaredExponentialKernel_call K"
  have kerr: "e = ValueError" if "z \<in> set x1" "?k z b' = Inl e" for z b' e
    using that(2) by (simp add: kernel_fails_iff)
  have row_err: "e = ValueError" if "z \<in> set x2" "mapM (\<lambda>a. ?k a z) x1 = Inl e" for z e
    using kerr that(2) by (rule mapM_only_error [of x1 "\<lambda>a. ?k a z" ValueError e])
  have "?k a b = Inl ValueError"
    using assms(3) by (simp add: kernel_fails_iff)
  with kerr assms(1) have "mapM (\<lambda>a. ?k a b) x1 = Inl ValueError"
    by (rule mapM_Inl [of x1 "\<lambda>a. ?k a b" ValueError a])
  with row_err assms(2) have "mapM (\<lambda>b. mapM (\<lambda>a. ?k a b) x1) x2 = Inl ValueError"
    by (rule mapM_Inl [of x2 "\<lambda>b. mapM (\<lambda>a. ?k a b) x1" ValueError b])
  then show ?thesis by (simp add: cov_matrix_def)
qed

subsection \<open>Construction\<close>

text \<open>
  The constructor hands to the inverse the matrix with entry
  \<open>k (X ! j) (X ! i) + (if i = j then 3e-7 + sigma else 0)\<close> in row \<open>i\<close>, column \<open>j\<close>;
  this also holds for an empty training set.
\<close>

lemma GPR_init_eq:
  assumes "\<forall>a\<in>set X. \<forall>b\<in>set X. k a b = Inr (kf a b)"
  shows "GPR_init linalg_inv X y k sigma =
           (case linalg_inv (Arr2 (length X) (tab2 (length X) (length X)
                   (\<lambda>i j. kf (X ! j) (X ! i) + (if i = j then 3 / 10 ^ 7 + sigma else 0)))) of
              Inl e \<Rightarrow> Inl e
            | Inr b \<Rightarrow> Inr \<lparr>noise = sigma, data_x = X, data_y = y, covariance_function = k,
                            inverse_of_covariance_matrix_of_input = b, memory = None\<rparr>)"
proof -
  let ?n = "length X"
  let ?K = "tab2 ?n ?n (\<lambda>i j. kf (X ! j) (X ! i))"
  let ?S = "tab2 ?n ?n (\<lambda>i j. kf (X ! j) (X ! i) + (if i = j then 3 / 10 ^ 7 + sigma else 0))"
  have cm: "cov_matrix X X k = Inr (np_array ?n ?K)"
    using assms by (rule cov_matrix_rows)
  have add: "np_add (np_array ?n ?K) (np_scale (3 / 10 ^ 7 + sigma) (np_identity ?n))
             = Inr (Arr2 ?n ?S)"
  proof (cases "X = []")
    case True
    then show ?thesis
      by (simp add: np_array_def np_add_def scale_identity tab2_def compat_def bdim_def)
  next
    case False
    then have "np_array ?n ?K = Arr2 ?n ?K"
      by (simp add: np_array_tab2)
    then show ?thesis
      by (simp only: np_add_def scale_identity binop_mat_mat)
  qed
  show ?thesis
    unfolding GPR_init_def by (simp only: cm add sum.case)
qed

lemma GPR_init_kernel_total:
  assumes "GPR_init linalg_inv X y k sigma = Inr g"
  shows "\<forall>a\<in>set X. \<forall>b\<in>set X. k a b = Inr (projr (k a b))"
proof -
  from assms obtain m where "cov_matrix X X k = Inr m"
    by (auto simp: GPR_init_def split: sum.splits)
  then show ?thesis
    using cov_matrix_Inr_D by fastforce
qed

lemma constructed:
  assumes init: "GPR_init linalg_inv X y k sigma = Inr g"
    and sp: "shape_preserving linalg_inv"
    and kXX: "\<forall>a\<in>set X. \<forall>b\<in>set X. k a b = Inr (kf a b)"
  shows "\<exists>B. g = \<lparr>noise = sigma, data_x = X, data_y = y, covariance_function = k,
                   inverse_of_covariance_matrix_of_input = Arr2 (length X) B, memory = None\<rparr>
             \<and> length B = length X \<and> (\<forall>row\<in>set B. length row = length X)
             \<and> linalg_inv (Arr2 (length X) (tab2 (length X) (length X)
                   (\<lambda>i j. kf (X ! j) (X ! i) + (if i = j then 3 / 10 ^ 7 + sigma else 0))))
                 = Inr (Arr2 (length X) B)"
proof -
  let ?S = "Arr2 (length X) (tab2 (length X) (length X)
                   (\<lambda>i j. kf (X ! j) (X ! i) + (if i = j then 3 / 10 ^ 7 + sigma else 0)))"
  have eq: "(case linalg_inv ?S of
              Inl e \<Rightarrow> Inl e
            | Inr b \<Rightarrow> Inr \<lparr>noise = sigma, data_x = X, data_y = y, covariance_function = k,
                            inverse_of_covariance_matrix_of_input = b, memory = None\<rparr>) = Inr g"
    using init GPR_init_eq [OF kXX, of linalg_inv y sigma] by simp
  show ?thesis
  proof (cases "linalg_inv ?S")
    case (Inl e)
    with eq show ?thesis by simp
  next
    case (Inr b)
    with eq have g: "g = \<lparr>noise = sigma, data_x = X, data_y = y, covariance_function = k,
                 inverse_of_covariance_matrix_of_input = b, memory = None\<rparr>"
      by simp
    from sp Inr have "wf_array b" and "np_shape b = np_shape ?S"
      unfolding shape_preserving_def by blast+
    then have "wf_array b" and "np_shape b = [length X, length X]"
      by simp_all
    then obtain B where b: "b = Arr2 (length X) B" and B: "length B = length X"
      "\<forall>row\<in>set B. length row = length X"
      using rank2_shape by blast
    show ?thesis
    proof (intro exI [of _ B] conjI)
      show "g = \<lparr>noise = sigma, data_x = X, data_y = y, covariance_function = k,
                 inverse_of_covariance_matrix_of_input = Arr2 (length X) B, memory = None\<rparr>"
        using g b by simp
      show "length B = length X" by (rule B(1))
      show "\<forall>row\<in>set B. length row = length X" by (rule B(2))
      show "linalg_inv ?S = Inr (Arr2 (length X) B)"
        using Inr b by simp
    qed
  qed
qed

subsection \<open>Prediction\<close>

text \<open>
  The result of \<open>predict\<close> on a non-empty query sequence, for a regressor whose stored
  inverse is an \<open>n \<times> n\<close> array \<open>B\<close> and whose outputs have length \<open>n\<close>: every entry of the
  posterior covariance receives the constant \<open>3e-7\<close>.
\<close>

lemma predict_eq:
  assumes Q: "Q \<noteq> []"
    and kXQ: "\<forall>a\<in>set (data_x g). \<forall>b\<in>set Q. covariance_function g a b = Inr (kf a b)"
    and kQQ: "\<forall>a\<in>set Q. \<forall>b\<in>set Q. covariance_function g a b = Inr (kf a b)"
    and inv: "inverse_of_covariance_matrix_of_input g = Arr2 n B"
    and n: "n = length (data_x g)" "length B = n" "\<forall>row\<in>set B. length row = n"
    and y: "length (data_y g) = n"
  shows "predict g Q =
    Inr (Arr1 (map (\<lambda>q. \<Sum>j<n. kf (data_x g ! j) (Q ! q) * (\<Sum>i<n. B ! j ! i * data_y g ! i))
                [0..<length Q]),
         g\<lparr>memory := Some
           \<lparr>mean = Arr1 (map (\<lambda>q. \<Sum>j<n. kf (data_x g ! j) (Q ! q)
                                  * (\<Sum>i<n. B ! j ! i * data_y g ! i)) [0..<length Q]),
            covariance_matrix = Arr2 (length Q) (tab2 (length Q) (length Q)
               (\<lambda>p q. kf (Q ! q) (Q ! p)
                  - (\<Sum>j<n. kf (data_x g ! j) (Q ! p) * (\<Sum>i<n. B ! j ! i * kf (data_x g ! i) (Q ! q)))
                  + 3 / 10 ^ 7)),
            variance = Arr1 (map (\<lambda>q. kf (Q ! q) (Q ! q)
                  - (\<Sum>j<n. kf (data_x g ! j) (Q ! q) * (\<Sum>i<n. B ! j ! i * kf (data_x g ! i) (Q ! q)))
                  + 3 / 10 ^ 7) [0..<length Q])\<rparr>\<rparr>)"
proof -
  let ?X = "data_x g" and ?y = "data_y g" and ?m = "length Q"
  let ?L = "tab2 ?m n (\<lambda>q j. kf (?X ! j) (Q ! q))"
  let ?R = "tab2 ?m ?m (\<lambda>p q. kf (Q ! q) (Q ! p))"
  let ?Bt = "tab2 n n (\<lambda>j i. B ! i ! j)"
  let ?v = "map (\<lambda>j. \<Sum>i<n. B ! j ! i * ?y ! i) [0..<n]"
  let ?mu = "map (\<lambda>q. \<Sum>j<n. kf (?X ! j) (Q ! q) * (\<Sum>i<n. B ! j ! i * ?y ! i)) [0..<?m]"
  let ?w = "tab2 n ?m (\<lambda>j q. \<Sum>i<n. B ! j ! i * kf (?X ! i) (Q ! q))"
  let ?p = "tab2 ?m ?m (\<lambda>p q. \<Sum>j<n. kf (?X ! j) (Q ! p) * (\<Sum>i<n. B ! j ! i * kf (?X ! i) (Q ! q)))"
  let ?raw = "tab2 ?m ?m (\<lambda>p q. kf (Q ! q) (Q ! p)
       - (\<Sum>j<n. kf (?X ! j) (Q ! p) * (\<Sum>i<n. B ! j ! i * kf (?X ! i) (Q ! q))))"
  let ?cov = "tab2 ?m ?m (\<lambda>p q. kf (Q ! q) (Q ! p)
       - (\<Sum>j<n. kf (?X ! j) (Q ! p) * (\<Sum>i<n. B ! j ! i * kf (?X ! i) (Q ! q))) + 3 / 10 ^ 7)"
  have m: "0 < ?m" using Q by simp
  have B: "B = tab2 n n (\<lambda>i j. B ! i ! j)"
    using n(2,3) by (rule tab2_of_rows)
  have yl: "?y = map (\<lambda>i. ?y ! i) [0..<n]"
    using y by (metis map_nth)
  have s1: "cov_matrix ?X Q (covariance_function g) = Inr (Arr2 n ?L)"
    using cov_matrix_rows [OF kXQ] m n(1) by (simp add: np_array_tab2)
  have s2: "cov_matrix Q Q (covariance_function g) = Inr (Arr2 ?m ?R)"
    using cov_matrix_rows [OF kQQ] m by (simp add: np_array_tab2)
  have "np_T (Arr2 n B) = Arr2 n ?Bt"
    by (subst B) (rule np_T_tab2)
  moreover have "np_dot (Arr1 ?y) (Arr2 n ?Bt) = Inr (Arr1 ?v)"
    by (subst yl) (simp only: dot_vec_mat mult.commute)
  ultimately have s3: "np_dot (Arr1 ?y) (np_T (inverse_of_covariance_matrix_of_input g))
                       = Inr (Arr1 ?v)"
    by (simp add: inv)
  have s4: "np_dot (Arr2 n ?L) (np_T (Arr1 ?v)) = Inr (Arr1 ?mu)"
    by (simp only: np_T.simps dot_mat_vec)
  have "np_dot (Arr2 n B) (np_T (Arr2 n ?L)) = Inr (Arr2 ?m ?w)"
    by (subst B) (simp only: np_T_tab2 dot_mat_mat)
  then have s5: "np_dot (inverse_of_covariance_matrix_of_input g) (np_T (Arr2 n ?L))
                 = Inr (Arr2 ?m ?w)"
    by (simp add: inv)
  have s6: "np_dot (Arr2 n ?L) (Arr2 ?m ?w) = Inr (Arr2 ?m ?p)"
    by (simp only: dot_mat_mat)
  have s7: "np_sub (Arr2 ?m ?R) (Arr2 ?m ?p) = Inr (Arr2 ?m ?raw)"
    by (simp only: np_sub_def binop_mat_mat)
  have s8: "np_shape0 (Arr2 ?m ?raw) = Inr ?m"
    by simp
  have s9: "np_add (Arr2 ?m ?raw) (np_scale (3 / 10 ^ 7) (np_ones ?m)) = Inr (Arr2 ?m ?cov)"
    by (simp only: np_add_def ones_upt binop_mat_vec)
  have s10: "np_diag (Arr2 ?m ?cov) = Inr (Arr1 (map (\<lambda>q. kf (Q ! q) (Q ! q)
       - (\<Sum>j<n. kf (?X ! j) (Q ! q) * (\<Sum>i<n. B ! j ! i * kf (?X ! i) (Q ! q))) + 3 / 10 ^ 7)
         [0..<?m]))"
    by (simp only: diag_tab2)
  show ?thesis
    unfolding predict_def
    by (simp only: s1 s2 s3 s4 s5 s6 s7 s8 s9 s10 sum.case np_flatten.simps)
qed

lemma predict_constructed:
  assumes init: "GPR_init linalg_inv X y k sigma = Inr g"
    and sp: "shape_preserving linalg_inv"
    and ne: "Q \<noteq> []" and len: "length y = length X"
    and kXX: "\<forall>a\<in>set X. \<forall>b\<in>set X. k a b = Inr (kf a b)"
    and kXQ: "\<forall>a\<in>set X. \<forall>b\<in>set Q. k a b = Inr (kf a b)"
    and kQQ: "\<forall>a\<in>set Q. \<forall>b\<in>set Q. k a b = Inr (kf a b)"
  shows "\<exists>B. inverse_of_covariance_matrix_of_input g = Arr2 (length X) B
    \<and> linalg_inv (Arr2 (length X) (tab2 (length X) (length X)
              (\<lambda>i j. kf (X ! j) (X ! i) + (if i = j then 3 / 10 ^ 7 + sigma else 0))))
         = Inr (Arr2 (length X) B)
    \<and> predict g Q =
    Inr (Arr1 (map (\<lambda>q. \<Sum>j<length X. kf (X ! j) (Q ! q) * (\<Sum>i<length X. B ! j ! i * y ! i))
                [0..<length Q]),
         g\<lparr>memory := Some
           \<lparr>mean = Arr1 (map (\<lambda>q. \<Sum>j<length X. kf (X ! j) (Q ! q)
                                  * (\<Sum>i<length X. B ! j ! i * y ! i)) [0..<length Q]),
            covariance_matrix = Arr2 (length Q) (tab2 (length Q) (length Q)
               (\<lambda>p q. kf (Q ! q) (Q ! p)
                  - (\<Sum>j<length X. kf (X ! j) (Q ! p) * (\<Sum>i<length X. B ! j ! i * kf (X ! i) (Q ! q)))
                  + 3 / 10 ^ 7)),
            variance = Arr1 (map (\<lambda>q. kf (Q ! q) (Q ! q)
                  - (\<Sum>j<length X. kf (X ! j) (Q ! q) * (\<Sum>i<length X. B ! j ! i * kf (X ! i) (Q ! q)))
                  + 3 / 10 ^ 7) [0..<length Q])\<rparr>\<rparr>)"
proof -
  let ?n = "length X"
  from constructed [OF init sp kXX] obtain B where
    g: "g = \<lparr>noise = sigma, data_x = X, data_y = y, covariance_function = k,
             inverse_of_covariance_matrix_of_input = Arr2 ?n B, memory = None\<rparr>"
    and B: "length B = ?n" "\<forall>row\<in>set B. length row = ?n"
    and inv: "linalg_inv (Arr2 ?n (tab2 ?n ?n
                (\<lambda>i j. kf (X ! j) (X ! i) + (if i = j then 3 / 10 ^ 7 + sigma else 0))))
              = Inr (Arr2 ?n B)"
    by blast
  have gx: "data_x g = X" "data_y g = y" "covariance_function g = k"
    "inverse_of_covariance_matrix_of_input g = Arr2 ?n B"
    by (simp_all add: g)
  have kXQ': "\<forall>a\<in>set (data_x g). \<forall>b\<in>set Q. covariance_function g a b = Inr (kf a b)"
    and kQQ': "\<forall>a\<in>set Q. \<forall>b\<in>set Q. covariance_function g a b = Inr (kf a b)"
    and n: "?n = length (data_x g)" and y: "length (data_y g) = ?n"
    using kXQ kQQ len by (simp_all only: gx)
  note p = predict_eq [OF ne kXQ' kQQ' gx(4) n B y, unfolded gx(1,2)]
  show ?thesis
    using gx(4) inv p by blast
qed

text \<open>
  On the empty query sequence both covariance matrices are the empty rank-1 array, and
  the product with the vector of length \<open>n \<ge> 1\<close> is misaligned.
\<close>

lemma predict_empty:
  assumes "inverse_of_covariance_matrix_of_input g = Arr2 c B" and "B \<noteq> []"
  shows "predict g [] = Inl ValueError"
proof -
  have c: "cov_matrix xs [] k = Inr (Arr1 [])" for xs k
    by (simp add: cov_matrix_def np_array_def)
  show ?thesis
  proof (cases "length (data_y g) = length (columns c B)")
    case True
    then have "np_dot (Arr1 (data_y g)) (np_T (inverse_of_covariance_matrix_of_input g))
          = Inr (Arr1 (map (inner (data_y g)) (columns (length B) (columns c B))))"
      by (simp add: assms(1))
    moreover have "np_dot (Arr1 []) (np_T (Arr1 (map (inner (data_y g))
                     (columns (length B) (columns c B))))) = Inl ValueError"
      using assms(2) by (simp add: columns_def)
    ultimately show ?thesis
      unfolding predict_def by (simp only: c sum.case)
  next
    case False
    then have "np_dot (Arr1 (data_y g)) (np_T (inverse_of_covariance_matrix_of_input g))
          = Inl ValueError"
      by (simp add: assms(1))
    then show ?thesis
      unfolding predict_def by (simp only: c sum.case)
  qed
qed

subsection \<open>Running the examples\<close>

lemmas run_simps =
  default_covariance_function_def SquaredExponentialKernel_call_def
  SquaredExponentialKernel_init_def broadcast1_def compat_def bzip_def bdim_def
  linalg_norm_def inner_def cov_matrix_def np_array_def GPR_init_def np_add_def np_sub_def
  np_identity_def np_ones_def exact_inv_def cofactor_def del_nth_def predict_def
  columns_def column_def upt_conv_Cons

lemma init_regressor_one:
  "GPR_init exact_inv [[0]] [5] default_covariance_function (1 / 100) = Inr regressor_one"
  by (simp add: run_simps)

lemma init_regressor_two:
  "GPR_init exact_inv [[0], [0]] [5, 6] default_covariance_function (1 / 100)
     = Inr regressor_two"
  by (simp add: run_simps)

lemma init_regressor_neg:
  "GPR_init exact_inv [[0]] [5] default_covariance_function (- (1 / 2)) = Inr regressor_neg"
  by (simp add: run_simps)

lemma init_regressor_plane:
  "GPR_init exact_inv [[0, 0]] [5] default_covariance_function (1 / 100)
     = Inr regressor_plane"
  by (simp add: run_simps)

lemma kernel_two_pts:
  "\<forall>a\<in>set [[0::real], [0]]. \<forall>b\<in>set [[0::real], [0]]. default_covariance_function a b = Inr 1"
  "\<forall>a\<in>set [[0::real], [0]]. \<forall>b\<in>set [[0::real]]. default_covariance_function a b = Inr 1"
  "\<forall>a\<in>set [[0::real]]. \<forall>b\<in>set [[0::real]]. default_covariance_function a b = Inr 1"
  by (simp_all add: default_kernel_self)

section \<open>The kernel\<close>

text \<open>
  Claim C9. For two vectors \<open>a\<close>, \<open>b\<close> of equal dimension the kernel returns
  \<open>sigma_f * exp (- ||a - b||\<^sup>2 / (2 * length\<^sup>2))\<close>, the squared distance being the sum of
  the squared coordinate differences; in particular it returns \<open>sigma_f\<close> on \<open>(a, a)\<close>.
\<close>

theorem kernel_formula:
  assumes "length a = length b" and "length_k K \<noteq> 0"
  shows "SquaredExponentialKernel_call K a b
           = Inr (sigma_f K * exp (- (\<Sum>i<length a. (a ! i - b ! i)\<^sup>2) / (2 * (length_k K)\<^sup>2)))
         \<and> SquaredExponentialKernel_call K a a = Inr (sigma_f K)"
proof
  show "SquaredExponentialKernel_call K a b
          = Inr (sigma_f K * exp (- (\<Sum>i<length a. (a ! i - b ! i)\<^sup>2) / (2 * (length_k K)\<^sup>2)))"
    using assms(1) by (rule kernel_value)
next
  show "SquaredExponentialKernel_call K a a = Inr (sigma_f K)"
    by (rule kernel_self)
qed

theorem kernel_formula_witness:
  "SquaredExponentialKernel_call (SquaredExponentialKernel_init 2 1) [1, 2] [1, 0]
     = Inr (2 * exp (- 2))
   \<and> SquaredExponentialKernel_call (SquaredExponentialKernel_init 2 1) [1, 2] [1, 2] = Inr 2"
  using kernel_formula [of "[1, 2]" "[1, 0]" "SquaredExponentialKernel_init 2 1"]
  by (simp add: SquaredExponentialKernel_init_def lessThan_Suc numeral_2_eq_2)

text \<open>
  Claim C10. The kernel is symmetric on vectors of equal dimension:
  \<open>k(a, b) = k(b, a)\<close>.
\<close>

theorem kernel_symmetric:
  assumes "length a = length b" and "length_k K \<noteq> 0"
  shows "SquaredExponentialKernel_call K a b = SquaredExponentialKernel_call K b a"
proof -
  have "(\<Sum>i<length a. (a ! i - b ! i)\<^sup>2) = (\<Sum>i<length b. (b ! i - a ! i)\<^sup>2)"
    using assms(1) by (intro sum.cong) (auto simp: power2_commute)
  then have "inner (map2 (-) a b) (map2 (-) a b) = inner (map2 (-) b a) (map2 (-) b a)"
    using assms(1) by (simp add: sq_dist_sum)
  then show ?thesis
    using assms(1)
    by (simp add: SquaredExponentialKernel_call_def broadcast1_same_length linalg_norm_sq)
qed

theorem kernel_symmetric_witness:
  "SquaredExponentialKernel_call (SquaredExponentialKernel_init 2 1) [1, 2] [1, 0]
     = SquaredExponentialKernel_call (SquaredExponentialKernel_init 2 1) [1, 0] [1, 2]"
  using kernel_symmetric [of "[1, 2]" "[1, 0]" "SquaredExponentialKernel_init 2 1"]
  by (simp add: SquaredExponentialKernel_init_def)

section \<open>Covariance-matrix assembly\<close>

text \<open>
  Claim C3, as the code has it. For point sequences \<open>X\<close> of size \<open>p\<close> and \<open>Y\<close> of size
  \<open>q\<close> on whose pairs the kernel returns \<open>kf\<close>, \<open>cov_matrix X Y k\<close> is, for \<open>q \<ge> 1\<close>, the
  array of \<open>q\<close> rows and \<open>p\<close> columns with entry \<open>kf (X ! i) (Y ! j)\<close> in row \<open>j\<close>, column
  \<open>i\<close> (the transpose of the \<open>p \<times> q\<close> matrix of the claim); for \<open>q = 0\<close> it is the empty
  rank-1 array.
\<close>

theorem cov_matrix_entries:
  assumes "\<forall>a\<in>set X. \<forall>b\<in>set Y. k a b = Inr (kf a b)"
  shows "cov_matrix X Y k
           = Inr (if Y = [] then Arr1 []
                  else Arr2 (length X) (tab2 (length Y) (length X) (\<lambda>j i. kf (X ! i) (Y ! j))))"
  using cov_matrix_rows [OF assms] by (simp add: np_array_def tab2_def)

theorem cov_matrix_entries_witness:
  "default_covariance_function [0] [1] = Inr (exp (- (1 / 2)))
   \<and> default_covariance_function [3] [1] = Inr (exp (- 2))
   \<and> cov_matrix [[0], [3]] [[1]] default_covariance_function
       = Inr (Arr2 2 [[exp (- (1 / 2)), exp (- 2)]])"
proof -
  have k: "\<forall>a\<in>set [[0::real], [3]]. \<forall>b\<in>set [[1::real]].
             default_covariance_function a b
               = Inr (exp (- (\<Sum>i<length a. (a ! i - b ! i)\<^sup>2) / 2))"
    by (simp add: default_kernel_value)
  show ?thesis
    using cov_matrix_entries [OF k]
    by (simp add: default_kernel_value tab2_def upt_conv_Cons)
qed

text \<open>
  Claim C3 as stated fails: from one point \<open>X\<close> and two points \<open>Y\<close> the function
  returns an array of shape \<open>(2, 1)\<close>, not \<open>(1, 2)\<close>.
\<close>

theorem cov_matrix_shape_counterexample:
  "cov_matrix [[0]] [[0], [0]] default_covariance_function = Inr (Arr2 1 [[1], [1]])
   \<and> np_shape (Arr2 1 [[1], [1]]) = [2, 1]
   \<and> np_shape (Arr2 1 [[1], [1]]) \<noteq> [1, 2]"
  by (simp add: run_simps)

section \<open>Construction\<close>

text \<open>
  Claim C4. For a kernel that returns the symmetric function \<open>kf\<close> on the training
  points, the constructor builds the \<open>n \<times> n\<close> matrix with entry \<open>kf (X ! i) (X ! j)\<close> off
  the diagonal and \<open>kf (X ! i) (X ! i) + (3e-7 + sigma)\<close> on it, applies the inverse to
  it and stores the result in the regressor (and fails when the inverse fails).
\<close>

theorem GPR_init_stores_inverse:
  assumes kXX: "\<forall>a\<in>set X. \<forall>b\<in>set X. k a b = Inr (kf a b)"
    and sym: "\<forall>a\<in>set X. \<forall>b\<in>set X. kf a b = kf b a"
  shows "GPR_init linalg_inv X y k sigma =
           (case linalg_inv (Arr2 (length X) (tab2 (length X) (length X)
                   (\<lambda>i j. kf (X ! i) (X ! j) + (if i = j then 3 / 10 ^ 7 + sigma else 0)))) of
              Inl e \<Rightarrow> Inl e
            | Inr b \<Rightarrow> Inr \<lparr>noise = sigma, data_x = X, data_y = y, covariance_function = k,
                            inverse_of_covariance_matrix_of_input = b, memory = None\<rparr>)"
proof -
  have "tab2 (length X) (length X)
          (\<lambda>i j. kf (X ! j) (X ! i) + (if i = j then 3 / 10 ^ 7 + sigma else 0))
      = tab2 (length X) (length X)
          (\<lambda>i j. kf (X ! i) (X ! j) + (if i = j then 3 / 10 ^ 7 + sigma else 0))"
    using sym by (intro tab2_cong) simp
  then show ?thesis
    using GPR_init_eq [OF kXX, of linalg_inv y sigma] by simp
qed

theorem GPR_init_stores_inverse_witness:
  "default_covariance_function [0] [0] = Inr 1
   \<and> GPR_init exact_inv [[0], [0]] [5, 6] default_covariance_function (1 / 100) =
           (case exact_inv (Arr2 (length [[0::real], [0]])
                   (tab2 (length [[0::real], [0]]) (length [[0::real], [0]])
                   (\<lambda>i j. 1 + (if i = j then 3 / 10 ^ 7 + 1 / 100 else 0)))) of
              Inl e \<Rightarrow> Inl e
            | Inr b \<Rightarrow> Inr \<lparr>noise = 1 / 100, data_x = [[0], [0]], data_y = [5, 6],
                            covariance_function = default_covariance_function,
                            inverse_of_covariance_matrix_of_input = b, memory = None\<rparr>)
   \<and> GPR_init exact_inv [[0], [0]] [5, 6] default_covariance_function (1 / 100)
       = Inr regressor_two"
proof (intro conjI)
  show "default_covariance_function [0] [0] = Inr 1"
    by (rule default_kernel_self)
  show "GPR_init exact_inv [[0], [0]] [5, 6] default_covariance_function (1 / 100) =
           (case exact_inv (Arr2 (length [[0::real], [0]])
                   (tab2 (length [[0::real], [0]]) (length [[0::real], [0]])
                   (\<lambda>i j. 1 + (if i = j then 3 / 10 ^ 7 + 1 / 100 else 0)))) of
              Inl e \<Rightarrow> Inl e
            | Inr b \<Rightarrow> Inr \<lparr>noise = 1 / 100, data_x = [[0], [0]], data_y = [5, 6],
                            covariance_function = default_covariance_function,
                            inverse_of_covariance_matrix_of_input = b, memory = None\<rparr>)"
    by (rule GPR_init_stores_inverse [where kf = "\<lambda>a b. 1"])
       (simp_all add: default_kernel_self)
  show "GPR_init exact_inv [[0], [0]] [5, 6] default_covariance_function (1 / 100)
       = Inr regressor_two"
    by (rule init_regressor_two)
qed

text \<open>
  Claim C6, as the code has it. The constructor checks neither the number of training
  points nor the sign of the noise variance: when the kernel evaluations succeed, it
  fails exactly when the inverse fails on the stabilized matrix, with that error, and
  creates a regressor otherwise; this holds for the empty training set and for a
  negative \<open>sigma\<close> too.
\<close>

theorem GPR_init_no_validation:
  assumes "\<forall>a\<in>set X. \<forall>b\<in>set X. k a b = Inr (kf a b)"
  shows "GPR_init linalg_inv X y k sigma = Inl e
         \<longleftrightarrow> linalg_inv (Arr2 (length X) (tab2 (length X) (length X)
                   (\<lambda>i j. kf (X ! j) (X ! i) + (if i = j then 3 / 10 ^ 7 + sigma else 0))))
               = Inl e"
  using GPR_init_eq [OF assms, of linalg_inv y sigma] by (simp split: sum.splits)

theorem GPR_init_no_validation_witness:
  "default_covariance_function [0] [0] = Inr 1
   \<and> (GPR_init exact_inv [[0]] [5] default_covariance_function (- (1 / 2)) = Inl LinAlgError
         \<longleftrightarrow> exact_inv (Arr2 (length [[0::real]]) (tab2 (length [[0::real]]) (length [[0::real]])
                   (\<lambda>i j. 1 + (if i = j then 3 / 10 ^ 7 + - (1 / 2) else 0))))
               = Inl LinAlgError)
   \<and> GPR_init exact_inv [[0]] [5] default_covariance_function (- (1 / 2)) \<noteq> Inl LinAlgError"
proof (intro conjI)
  show "default_covariance_function [0] [0] = Inr 1"
    by (rule default_kernel_self)
  show "GPR_init exact_inv [[0]] [5] default_covariance_function (- (1 / 2)) = Inl LinAlgError
         \<longleftrightarrow> exact_inv (Arr2 (length [[0::real]]) (tab2 (length [[0::real]]) (length [[0::real]])
                   (\<lambda>i j. 1 + (if i = j then 3 / 10 ^ 7 + - (1 / 2) else 0))))
               = Inl LinAlgError"
    by (rule GPR_init_no_validation [where kf = "\<lambda>a b. 1"]) (rule kernel_two_pts(3))
  show "GPR_init exact_inv [[0]] [5] default_covariance_function (- (1 / 2)) \<noteq> Inl LinAlgError"
    by (simp add: init_regressor_neg)
qed

text \<open>
  Claim C6 as stated fails: with no training point, and with the noise variance
  \<open>-0.5\<close>, the constructor returns a regressor.
\<close>

theorem GPR_init_accepts_counterexample:
  "GPR_init exact_inv [] [] default_covariance_function (1 / 100)
     = Inr \<lparr>noise = 1 / 100, data_x = [], data_y = [],
            covariance_function = default_covariance_function,
            inverse_of_covariance_matrix_of_input = Arr2 0 [], memory = None\<rparr>
   \<and> GPR_init exact_inv [[0]] [5] default_covariance_function (- (1 / 2))
     = Inr regressor_neg"
  by (simp add: run_simps)

section \<open>Prediction\<close>

text \<open>
  Claim C1. Let the regressor \<open>g\<close> be constructed from \<open>n\<close> training pairs \<open>(X, y)\<close>, a
  kernel that returns the function \<open>kf\<close> (symmetric on the training points) on the
  points involved, and the noise variance \<open>sigma\<close>. The inverse it stores is the array
  \<open>B\<close> that the inverse returned on the matrix \<open>K + (3e-7 + sigma) I\<close>, and on a non-empty
  query sequence \<open>Q\<close> the mean that \<open>predict\<close> returns has, at position \<open>q\<close>, the value
  \<open>\<Sum>j. Kx[j][q] * (\<Sum>i. B[j][i] * y[i])\<close> with \<open>Kx[j][q] = kf (X ! j) (Q ! q)\<close>, that is
  \<open>Kx\<^sup>T (B y)\<close>.
\<close>

theorem predict_mean:
  assumes init: "GPR_init linalg_inv X y k sigma = Inr g"
    and sp: "shape_preserving linalg_inv"
    and ne: "Q \<noteq> []" and len: "length y = length X"
    and kXX: "\<forall>a\<in>set X. \<forall>b\<in>set X. k a b = Inr (kf a b)"
    and kXQ: "\<forall>a\<in>set X. \<forall>b\<in>set Q. k a b = Inr (kf a b)"
    and kQQ: "\<forall>a\<in>set Q. \<forall>b\<in>set Q. k a b = Inr (kf a b)"
    and sym: "\<forall>a\<in>set X. \<forall>b\<in>set X. kf a b = kf b a"
  shows "\<exists>B mu g'.
           linalg_inv (Arr2 (length X) (tab2 (length X) (length X)
              (\<lambda>i j. kf (X ! i) (X ! j) + (if i = j then 3 / 10 ^ 7 + sigma else 0))))
             = Inr (Arr2 (length X) B)
         \<and> inverse_of_covariance_matrix_of_input g = Arr2 (length X) B
         \<and> predict g Q = Inr (Arr1 mu, g')
         \<and> length mu = length Q
         \<and> (\<forall>q<length Q. mu ! q
               = (\<Sum>j<length X. kf (X ! j) (Q ! q) * (\<Sum>i<length X. B ! j ! i * y ! i)))"
proof -
  let ?n = "length X"
  from predict_constructed [OF init sp ne len kXX kXQ kQQ] obtain B g' where
    stored: "inverse_of_covariance_matrix_of_input g = Arr2 ?n B"
    and inv: "linalg_inv (Arr2 ?n (tab2 ?n ?n
                (\<lambda>i j. kf (X ! j) (X ! i) + (if i = j then 3 / 10 ^ 7 + sigma else 0))))
              = Inr (Arr2 ?n B)"
    and p: "predict g Q =
       Inr (Arr1 (map (\<lambda>q. \<Sum>j<?n. kf (X ! j) (Q ! q) * (\<Sum>i<?n. B ! j ! i * y ! i))
                   [0..<length Q]), g')"
    by blast
  have "tab2 ?n ?n (\<lambda>i j. kf (X ! j) (X ! i) + (if i = j then 3 / 10 ^ 7 + sigma else 0))
      = tab2 ?n ?n (\<lambda>i j. kf (X ! i) (X ! j) + (if i = j then 3 / 10 ^ 7 + sigma else 0))"
    using sym by (intro tab2_cong) simp
  with inv have inv': "linalg_inv (Arr2 ?n (tab2 ?n ?n
                (\<lambda>i j. kf (X ! i) (X ! j) + (if i = j then 3 / 10 ^ 7 + sigma else 0))))
              = Inr (Arr2 ?n B)"
    by simp
  define mu where "mu = map (\<lambda>q. \<Sum>j<?n. kf (X ! j) (Q ! q)
              * (\<Sum>i<?n. B ! j ! i * y ! i)) [0..<length Q]"
  have "predict g Q = Inr (Arr1 mu, g')"
    unfolding mu_def by (rule p)
  moreover have "length mu = length Q"
    by (simp add: mu_def)
  moreover have "\<forall>q<length Q. mu ! q
               = (\<Sum>j<length X. kf (X ! j) (Q ! q) * (\<Sum>i<length X. B ! j ! i * y ! i))"
    by (simp add: mu_def)
  ultimately show ?thesis
    using inv' stored by blast
qed

theorem predict_mean_witness:
  "GPR_init exact_inv [[0], [0]] [5, 6] default_covariance_function (1 / 100)
     = Inr regressor_two
   \<and> (\<exists>B mu g'.
           exact_inv (Arr2 (length [[0::real], [0]])
              (tab2 (length [[0::real], [0]]) (length [[0::real], [0]])
                 (\<lambda>i j. 1 + (if i = j then 3 / 10 ^ 7 + 1 / 100 else 0))))
             = Inr (Arr2 (length [[0::real], [0]]) B)
         \<and> inverse_of_covariance_matrix_of_input regressor_two
             = Arr2 (length [[0::real], [0]]) B
         \<and> predict regressor_two [[0]] = Inr (Arr1 mu, g')
         \<and> length mu = length [[0::real]]
         \<and> (\<forall>q<length [[0::real]]. mu ! q
               = (\<Sum>j<length [[0::real], [0]].
                    1 * (\<Sum>i<length [[0::real], [0]]. B ! j ! i * [5, 6] ! i))))"
proof
  show "GPR_init exact_inv [[0], [0]] [5, 6] default_covariance_function (1 / 100)
          = Inr regressor_two"
    by (rule init_regressor_two)
  show "\<exists>B mu g'.
           exact_inv (Arr2 (length [[0::real], [0]])
              (tab2 (length [[0::real], [0]]) (length [[0::real], [0]])
                 (\<lambda>i j. 1 + (if i = j then 3 / 10 ^ 7 + 1 / 100 else 0))))
             = Inr (Arr2 (length [[0::real], [0]]) B)
         \<and> inverse_of_covariance_matrix_of_input regressor_two
             = Arr2 (length [[0::real], [0]]) B
         \<and> predict regressor_two [[0]] = Inr (Arr1 mu, g')
         \<and> length mu = length [[0::real]]
         \<and> (\<forall>q<length [[0::real]]. mu ! q
               = (\<Sum>j<length [[0::real], [0]].
                    1 * (\<Sum>i<length [[0::real], [0]]. B ! j ! i * [5, 6] ! i)))"
    by (rule predict_mean [OF init_regressor_two exact_inv_shape, where kf = "\<lambda>a b. 1"])
       (simp_all add: default_kernel_self)
qed

text \<open>
  Claim C2 at the training set \<open>{(0, 5)}\<close>, noise 0.01, and the two query points
  \<open>0, 0\<close>. Here \<open>Kxx - Kx\<^sup>T B Kx\<close> has the value \<open>100003 / 10100003\<close> in all four entries.
  \<open>predict\<close> adds \<open>3e-7\<close> to the two off-diagonal entries as well as to the diagonal:
  \<^verbatim>\<open>3e-7 * np.ones(n)\<close> is a vector, which broadcasts over every row.
\<close>

theorem predict_covariance_offdiagonal:
  "predict regressor_one [[0], [0]]
     = Inr (Arr1 [50000000 / 10100003, 50000000 / 10100003],
            regressor_one\<lparr>memory := Some
              \<lparr>mean = Arr1 [50000000 / 10100003, 50000000 / 10100003],
               covariance_matrix =
                 Arr2 2 [[100003 / 10100003 + 3 / 10 ^ 7, 100003 / 10100003 + 3 / 10 ^ 7],
                         [100003 / 10100003 + 3 / 10 ^ 7, 100003 / 10100003 + 3 / 10 ^ 7]],
               variance = Arr1 [100003 / 10100003 + 3 / 10 ^ 7,
                                100003 / 10100003 + 3 / 10 ^ 7]\<rparr>\<rparr>)"
  by (simp add: run_simps)

text \<open>
  Claim C5, as the code has it. On a non-empty query sequence of \<open>m\<close> points \<open>predict\<close>
  returns the mean vector alone; the result with the mean (length \<open>m\<close>), the
  \<open>m \<times> m\<close> posterior covariance matrix and the variance vector is stored in the
  regressor's memory, and the stored variance is the diagonal of the stored covariance.
\<close>

theorem predict_stores_posterior:
  assumes init: "GPR_init linalg_inv X y k sigma = Inr g"
    and sp: "shape_preserving linalg_inv"
    and ne: "Q \<noteq> []" and len: "length y = length X"
    and kXX: "\<forall>a\<in>set X. \<forall>b\<in>set X. k a b = Inr (kf a b)"
    and kXQ: "\<forall>a\<in>set X. \<forall>b\<in>set Q. k a b = Inr (kf a b)"
    and kQQ: "\<forall>a\<in>set Q. \<forall>b\<in>set Q. k a b = Inr (kf a b)"
  shows "\<exists>mu C v.
           predict g Q = Inr (Arr1 mu,
             g\<lparr>memory := Some \<lparr>mean = Arr1 mu, covariance_matrix = Arr2 (length Q) C,
                                variance = Arr1 v\<rparr>\<rparr>)
         \<and> length mu = length Q
         \<and> length C = length Q \<and> (\<forall>p<length Q. length (C ! p) = length Q)
         \<and> length v = length Q \<and> (\<forall>q<length Q. v ! q = C ! q ! q)"
proof -
  from predict_constructed [OF assms] obtain mu f where
    p: "predict g Q = Inr (Arr1 mu,
             g\<lparr>memory := Some \<lparr>mean = Arr1 mu,
                  covariance_matrix = Arr2 (length Q) (tab2 (length Q) (length Q) f),
                  variance = Arr1 (map (\<lambda>q. f q q) [0..<length Q])\<rparr>\<rparr>)"
    and mu: "length mu = length Q"
    by fastforce
  define C where "C = tab2 (length Q) (length Q) f"
  define v where "v = map (\<lambda>q. f q q) [0..<length Q]"
  have "predict g Q = Inr (Arr1 mu,
             g\<lparr>memory := Some \<lparr>mean = Arr1 mu, covariance_matrix = Arr2 (length Q) C,
                                variance = Arr1 v\<rparr>\<rparr>)"
    unfolding C_def v_def by (rule p)
  moreover have "length C = length Q" "\<forall>p<length Q. length (C ! p) = length Q"
    "length v = length Q" "\<forall>q<length Q. v ! q = C ! q ! q"
    by (simp_all add: C_def v_def)
  ultimately show ?thesis
    using mu by blast
qed

theorem predict_stores_posterior_witness:
  "GPR_init exact_inv [[0], [0]] [5, 6] default_covariance_function (1 / 100)
     = Inr regressor_two
   \<and> (\<exists>mu C v.
           predict regressor_two [[0]] = Inr (Arr1 mu,
             regressor_two\<lparr>memory := Some
               \<lparr>mean = Arr1 mu, covariance_matrix = Arr2 (length [[0::real]]) C,
                variance = Arr1 v\<rparr>\<rparr>)
         \<and> length mu = length [[0::real]]
         \<and> length C = length [[0::real]]
         \<and> (\<forall>p<length [[0::real]]. length (C ! p) = length [[0::real]])
         \<and> length v = length [[0::real]] \<and> (\<forall>q<length [[0::real]]. v ! q = C ! q ! q))"
  using init_regressor_two
    predict_stores_posterior [OF init_regressor_two exact_inv_shape _ _ kernel_two_pts(1,2,3)]
  by simp

text \<open>
  Claim C5 as stated fails: the value \<open>predict\<close> returns (the first component) is the
  mean array, not a result holding mean, covariance and variance.
\<close>

theorem predict_returns_mean_counterexample:
  "predict regressor_one [[0]]
     = Inr (Arr1 [50000000 / 10100003],
            regressor_one\<lparr>memory := Some
              \<lparr>mean = Arr1 [50000000 / 10100003],
               covariance_matrix = Arr2 1 [[1000060300009 / 101000030000000]],
               variance = Arr1 [1000060300009 / 101000030000000]\<rparr>\<rparr>)
   \<and> fst (projr (predict regressor_one [[0]])) = Arr1 [50000000 / 10100003]"
  by (simp add: run_simps)

text \<open>
  Claim C7, as the code has it. Neither the constructor nor \<open>predict\<close> compares
  dimensions; an error arises only where numpy cannot broadcast or align. With the
  squared exponential kernel: \<open>predict\<close> on the empty query sequence fails with
  \<open>ValueError\<close> for a regressor constructed from at least one training point; \<open>predict\<close>
  fails with \<open>ValueError\<close> when a query point and a training point have different
  lengths neither of which is 1; the constructor fails with \<open>ValueError\<close> when two
  training points have different lengths neither of which is 1; and the kernel itself
  fails on two points exactly when their lengths differ and neither is 1.
\<close>

theorem dimension_errors:
  assumes init: "GPR_init linalg_inv X y (SquaredExponentialKernel_call K) sigma = Inr g"
    and sp: "shape_preserving linalg_inv"
    and ne: "X \<noteq> []"
    and nz: "length_k K \<noteq> 0" "length_k K' \<noteq> 0"
  shows "predict g [] = Inl ValueError
       \<and> ((\<exists>a\<in>set X. \<exists>b\<in>set Q. length a \<noteq> length b \<and> length a \<noteq> 1 \<and> length b \<noteq> 1)
            \<longrightarrow> predict g Q = Inl ValueError)
       \<and> ((\<exists>a\<in>set X'. \<exists>b\<in>set X'. length a \<noteq> length b \<and> length a \<noteq> 1 \<and> length b \<noteq> 1)
            \<longrightarrow> GPR_init linalg_inv' X' y' (SquaredExponentialKernel_call K') sigma'
                 = Inl ValueError)
       \<and> (SquaredExponentialKernel_call K' a' b' = Inl e
            \<longleftrightarrow> e = ValueError \<and> length a' \<noteq> length b' \<and> length a' \<noteq> 1 \<and> length b' \<noteq> 1)"
proof (intro conjI impI)
  show "SquaredExponentialKernel_call K' a' b' = Inl e
            \<longleftrightarrow> e = ValueError \<and> length a' \<noteq> length b' \<and> length a' \<noteq> 1 \<and> length b' \<noteq> 1"
    by (simp add: kernel_fails_iff compat_def)
next
  let ?k = "SquaredExponentialKernel_call K"
  from constructed [OF init sp GPR_init_kernel_total [OF init]] obtain B where
    g: "g = \<lparr>noise = sigma, data_x = X, data_y = y, covariance_function = ?k,
             inverse_of_covariance_matrix_of_input = Arr2 (length X) B, memory = None\<rparr>"
    and B: "length B = length X"
    by blast
  have gx: "data_x g = X" "covariance_function g = ?k"
    "inverse_of_covariance_matrix_of_input g = Arr2 (length X) B"
    by (simp_all add: g)
  from B ne have "B \<noteq> []" by auto
  with gx(3) show "predict g [] = Inl ValueError"
    by (rule predict_empty)
  {
    assume "\<exists>a\<in>set X. \<exists>b\<in>set Q. length a \<noteq> length b \<and> length a \<noteq> 1 \<and> length b \<noteq> 1"
    then obtain a b where "a \<in> set X" "b \<in> set Q" "\<not> compat (length a) (length b)"
      by (auto simp: compat_def)
    then have "cov_matrix X Q ?k = Inl ValueError"
      by (rule cov_matrix_kernel_fails)
    then show "predict g Q = Inl ValueError"
      by (simp add: predict_def gx)
  }
  {
    assume "\<exists>a\<in>set X'. \<exists>b\<in>set X'. length a \<noteq> length b \<and> length a \<noteq> 1 \<and> length b \<noteq> 1"
    then obtain a b where "a \<in> set X'" "b \<in> set X'" "\<not> compat (length a) (length b)"
      by (auto simp: compat_def)
    then have "cov_matrix X' X' (SquaredExponentialKernel_call K') = Inl ValueError"
      by (rule cov_matrix_kernel_fails)
    then show "GPR_init linalg_inv' X' y' (SquaredExponentialKernel_call K') sigma'
                 = Inl ValueError"
      by (simp add: GPR_init_def)
  }
qed

theorem dimension_errors_witness:
  "GPR_init exact_inv [[0, 0]] [5]
      (SquaredExponentialKernel_call (SquaredExponentialKernel_init 1 1)) (1 / 100)
     = Inr regressor_plane
   \<and> predict regressor_plane [] = Inl ValueError
   \<and> predict regressor_plane [[0, 0, 0]] = Inl ValueError
   \<and> GPR_init exact_inv [[0, 1], [0, 0, 0]] [5, 6]
        (SquaredExponentialKernel_call (SquaredExponentialKernel_init 1 1)) (1 / 100)
      = Inl ValueError
   \<and> SquaredExponentialKernel_call (SquaredExponentialKernel_init 1 1) [0, 1] [0, 0, 0]
      = Inl ValueError"
  using init_regressor_plane [unfolded default_covariance_function_def]
    dimension_errors [OF init_regressor_plane [unfolded default_covariance_function_def]
      exact_inv_shape,
      where Q = "[[0, 0, 0]]" and X' = "[[0, 1], [0, 0, 0]]" and linalg_inv' = exact_inv
        and y' = "[5, 6]" and K' = "SquaredExponentialKernel_init 1 1" and sigma' = "1 / 100"
        and a' = "[0, 1]" and b' = "[0, 0, 0]" and e = ValueError]
  by (simp add: default_covariance_function_def SquaredExponentialKernel_init_def)

text \<open>
  Claim C7 as stated fails: a regressor trained on a point of dimension 1 predicts at
  a query point of dimension 2, and the constructor accepts training points of
  dimensions 1 and 2 (the difference of the points broadcasts).
\<close>

theorem dimension_accepted_counterexample:
  "predict regressor_one [[0, 0]]
     = Inr (Arr1 [50000000 / 10100003],
            regressor_one\<lparr>memory := Some
              \<lparr>mean = Arr1 [50000000 / 10100003],
               covariance_matrix = Arr2 1 [[1000060300009 / 101000030000000]],
               variance = Arr1 [1000060300009 / 101000030000000]\<rparr>\<rparr>)
   \<and> GPR_init exact_inv [[0], [0, 0]] [5, 6] default_covariance_function (1 / 100)
     = Inr \<lparr>noise = 1 / 100, data_x = [[0], [0, 0]], data_y = [5, 6],
            covariance_function = default_covariance_function,
            inverse_of_covariance_matrix_of_input =
              Arr2 2 [[101000030000000 / 2010060600009, - (100000000000000 / 2010060600009)],
                      [- (100000000000000 / 2010060600009), 101000030000000 / 2010060600009]],
            memory = None\<rparr>"
  by (simp add: run_simps)

text \<open>
  Claim C8, as the code has it. \<open>predict\<close> does not inspect the variance: on a
  non-empty query sequence on whose points the kernel succeeds it returns normally,
  and the variance it stores has at position \<open>q\<close> the value
  \<open>kf (Q ! q) (Q ! q) - \<Sum>j. Kx[j][q] * (\<Sum>i. B[j][i] * Kx[i][q]) + 3e-7\<close>, whatever its sign.
\<close>

theorem predict_variance_unchecked:
  assumes init: "GPR_init linalg_inv X y k sigma = Inr g"
    and sp: "shape_preserving linalg_inv"
    and ne: "Q \<noteq> []" and len: "length y = length X"
    and kXX: "\<forall>a\<in>set X. \<forall>b\<in>set X. k a b = Inr (kf a b)"
    and kXQ: "\<forall>a\<in>set X. \<forall>b\<in>set Q. k a b = Inr (kf a b)"
    and kQQ: "\<forall>a\<in>set Q. \<forall>b\<in>set Q. k a b = Inr (kf a b)"
  shows "\<exists>B r p.
           inverse_of_covariance_matrix_of_input g = Arr2 (length X) B
         \<and> predict g Q = Inr (r, g\<lparr>memory := Some p\<rparr>)
         \<and> variance p = Arr1 (map (\<lambda>q. kf (Q ! q) (Q ! q)
               - (\<Sum>j<length X. kf (X ! j) (Q ! q)
                     * (\<Sum>i<length X. B ! j ! i * kf (X ! i) (Q ! q)))
               + 3 / 10 ^ 7) [0..<length Q])"
proof -
  from predict_constructed [OF assms] obtain B r p where
    "inverse_of_covariance_matrix_of_input g = Arr2 (length X) B"
    "predict g Q = Inr (r, g\<lparr>memory := Some p\<rparr>)"
    "variance p = Arr1 (map (\<lambda>q. kf (Q ! q) (Q ! q)
               - (\<Sum>j<length X. kf (X ! j) (Q ! q)
                     * (\<Sum>i<length X. B ! j ! i * kf (X ! i) (Q ! q)))
               + 3 / 10 ^ 7) [0..<length Q])"
    by fastforce
  then show ?thesis by blast
qed

theorem predict_variance_unchecked_witness:
  "GPR_init exact_inv [[0]] [5] default_covariance_function (- (1 / 2)) = Inr regressor_neg
   \<and> (\<exists>B r p.
           inverse_of_covariance_matrix_of_input regressor_neg = Arr2 (length [[0::real]]) B
         \<and> predict regressor_neg [[0]] = Inr (r, regressor_neg\<lparr>memory := Some p\<rparr>)
         \<and> variance p = Arr1 (map (\<lambda>q. 1
               - (\<Sum>j<length [[0::real]]. 1 * (\<Sum>i<length [[0::real]]. B ! j ! i * 1))
               + 3 / 10 ^ 7) [0..<length [[0::real]]]))"
  using init_regressor_neg
    predict_variance_unchecked [OF init_regressor_neg exact_inv_shape _ _
      kernel_two_pts(3) kernel_two_pts(3) kernel_two_pts(3)]
  by simp

text \<open>
  Claim C8 as stated fails: for the regressor with noise variance \<open>-0.5\<close> the variance
  at the query point \<open>0\<close> is negative, about \<open>-1\<close>, and \<open>predict\<close> returns normally.
\<close>

theorem predict_negative_variance_counterexample:
  "predict regressor_neg [[0]]
     = Inr (Arr1 [50000000 / 5000003],
            regressor_neg\<lparr>memory := Some
              \<lparr>mean = Arr1 [50000000 / 5000003],
               covariance_matrix = Arr2 1 [[- (49999954999991 / 50000030000000)]],
               variance = Arr1 [- (49999954999991 / 50000030000000)]\<rparr>\<rparr>)
   \<and> - (49999954999991 / 50000030000000) < (0::real)"
  by (simp add: run_simps)

end
